theory Spec2Isabelle
  imports Main
begin

section \<open>Values exchanged over HTTP\<close>

text \<open>
  The server (\<^verbatim>\<open>server.js\<close>) answers every request with a status code and a JSON
  body. The bodies it builds are enumerated by \<open>body\<close>; JSON objects that are spread or
  echoed (\<^verbatim>\<open>req.body\<close>, the created employee) are finite maps from field names to
  values. Request fields are modelled as strings: express-validator validates the string
  form of every field. A character stands for a code unit below 256 of a JavaScript
  string.
\<close>

datatype jval = JNum nat | JStr string

type_synonym obj = "string \<rightharpoonup> jval"

type_synonym reqbody = "string \<rightharpoonup> string"

record verr =
  path :: string
  msg :: string

record user =
  user_id :: nat
  user_name :: string

text \<open>
  The \<^verbatim>\<open>employees\<close> table of \<^verbatim>\<open>initializeDatabase\<close>. \<open>fields\<close> are the nine columns
  a request supplies; \<^verbatim>\<open>phone\<close> and \<^verbatim>\<open>address\<close> are the nullable ones. The id and
  the two timestamps are assigned by the storage layer.
\<close>

record fields =
  first_name :: string
  last_name :: string
  email :: string
  position :: string
  department :: string
  salary :: string
  hire_date :: string
  phone :: "string option"
  address :: "string option"

record employee =
  emp_id :: nat
  cols :: fields
  created_at :: nat
  updated_at :: nat

datatype body =
    Error string
  | ErrorDetails string "verr list"
  | Message string
  | LoginOk string string user
  | Verified user
  | Created (caption: string) (employee_of: obj)
  | Row employee

datatype response = Response (status: nat) (payload: body)

section \<open>External libraries\<close>

text \<open>
  The server calls validator.js (through express-validator), bcryptjs and jsonwebtoken.
  Their code is not part of the repository; every function of theirs that the server
  calls is a parameter of the model, collected in the record \<open>lib\<close>. The token functions
  take the clock reading, since a token carries its expiry. \<open>normalizeEmail\<close> is the
  address that validator.js answers; where it answers \<^verbatim>\<open>false\<close> instead (the local part
  came out empty), the sanitized field is no string and the request is outside the model.
\<close>

record lib =
  isEmail :: "string \<Rightarrow> bool"
  normalizeEmail :: "string \<Rightarrow> string"
  isFloatMin0 :: "string \<Rightarrow> bool"
  isDate :: "string \<Rightarrow> bool"
  isMobilePhone :: "string \<Rightarrow> bool"
  compareSync :: "string \<Rightarrow> string \<Rightarrow> bool"
  jwt_sign :: "user \<Rightarrow> nat \<Rightarrow> string"
  jwt_verify :: "string \<Rightarrow> nat \<Rightarrow> user option"

section \<open>The auth gate: \<^verbatim>\<open>authenticateToken\<close>\<close>

text \<open>
  JavaScript's \<^verbatim>\<open>String.prototype.split\<close> with a one-character separator: the result
  always has at least one element, and the empty string splits into one empty string.
\<close>

fun split :: "char \<Rightarrow> string \<Rightarrow> string list" where
  "split sep [] = [[]]"
| "split sep (c # cs) =
     (if c = sep then [] # split sep cs
      else (c # hd (split sep cs)) # tl (split sep cs))"

text \<open>Array indexing \<^verbatim>\<open>xs[i]\<close>: \<^verbatim>\<open>undefined\<close> (here \<open>None\<close>) out of range.\<close>

definition index :: "'a list \<Rightarrow> nat \<Rightarrow> 'a option" where
  "index xs i = (if i < length xs then Some (xs ! i) else None)"

text \<open>
  \<^verbatim>\<open>const token = authHeader && authHeader.split(' ')[1];\<close>
  A missing header is \<open>None\<close>. An empty header is falsy, so \<^verbatim>\<open>&&\<close> yields the empty
  string itself.
\<close>

definition token_of :: "string option \<Rightarrow> string option" where
  "token_of authHeader =
     (case authHeader of
        None \<Rightarrow> None
      | Some h \<Rightarrow> if h = [] then Some [] else index (split (CHR '' '') h) 1)"

text \<open>\<^verbatim>\<open>!token\<close>: \<^verbatim>\<open>undefined\<close> and the empty string are the falsy values here.\<close>

definition falsy :: "string option \<Rightarrow> bool" where
  "falsy v = (v = None \<or> v = Some [])"

text \<open>
  The middleware either answers itself (\<open>Inl\<close>, the request stops there) or calls
  \<^verbatim>\<open>next()\<close> with \<^verbatim>\<open>req.user\<close> set to the decoded identity (\<open>Inr\<close>).
\<close>

definition authenticateToken :: "lib \<Rightarrow> nat \<Rightarrow> string option \<Rightarrow> response + user" where
  "authenticateToken L now authHeader =
     (case token_of authHeader of
        None \<Rightarrow> Inl (Response 401 (Error ''Access token required''))
      | Some t \<Rightarrow>
          if t = [] then Inl (Response 401 (Error ''Access token required''))
          else (case jwt_verify L t now of
                  None \<Rightarrow> Inl (Response 403 (Error ''Invalid or expired token''))
                | Some u \<Rightarrow> Inr u))"

text \<open>
  A protected route \<^verbatim>\<open>app.METHOD(path, authenticateToken, ..., handler)\<close>: the handler
  runs on the state \<open>s\<close> only when the gate called \<^verbatim>\<open>next()\<close>.
\<close>

definition protected ::
  "lib \<Rightarrow> nat \<Rightarrow> string option \<Rightarrow> (user \<Rightarrow> 's \<Rightarrow> response \<times> 's) \<Rightarrow> 's \<Rightarrow> response \<times> 's" where
  "protected L now authHeader handler s =
     (case authenticateToken L now authHeader of
        Inl r \<Rightarrow> (r, s)
      | Inr u \<Rightarrow> handler u s)"

text \<open>\<^verbatim>\<open>POST /api/auth/verify\<close>\<close>

definition verify_route :: "lib \<Rightarrow> nat \<Rightarrow> string option \<Rightarrow> 's \<Rightarrow> response \<times> 's" where
  "verify_route L now authHeader s =
     protected L now authHeader (\<lambda>u s. (Response 200 (Verified u), s)) s"

section \<open>Storage errors\<close>

text \<open>
  \<^verbatim>\<open>pool.execute\<close> either resolves with a result or throws. The only error code the
  server looks at is \<^verbatim>\<open>ER_DUP_ENTRY\<close>; every other failure (lost connection, bad
  parameter, ...) is \<open>ER_OTHER\<close>. A request's environment says, for each statement the
  handler issues (numbered from 0), whether the storage layer fails there for a reason
  of its own.
\<close>

datatype db_error = ER_DUP_ENTRY | ER_OTHER

type_synonym faults = "nat \<Rightarrow> db_error option"

definition execute :: "faults \<Rightarrow> nat \<Rightarrow> (db_error + 'a) \<Rightarrow> db_error + 'a" where
  "execute fault k outcome = (case fault k of Some e \<Rightarrow> Inl e | None \<Rightarrow> outcome)"

section \<open>Sanitizers and validators written out in the chains\<close>

text \<open>
  express-validator applies every standard validator and sanitizer to the string form of
  the field; a missing field reads as the empty string. \<^verbatim>\<open>trim()\<close> strips white space
  from both ends: what JavaScript's \<^verbatim>\<open>\s\<close> matches, which among the code units below
  256 is tab, line feed, vertical tab, form feed, carriage return, space and the
  no-break space.
\<close>

definition str :: "string option \<Rightarrow> string" where
  "str v = (case v of None \<Rightarrow> [] | Some s \<Rightarrow> s)"

definition whitespace :: "char \<Rightarrow> bool" where
  "whitespace c = ((of_char c :: nat) \<in> {9, 10, 11, 12, 13, 32, 160})"

definition trim :: "string \<Rightarrow> string" where
  "trim s = rev (dropWhile whitespace (rev (dropWhile whitespace s)))"

definition isLength :: "nat \<Rightarrow> nat \<Rightarrow> string \<Rightarrow> bool" where
  "isLength lo hi s = (lo \<le> length s \<and> length s \<le> hi)"

definition failing :: "bool \<Rightarrow> string \<Rightarrow> string \<Rightarrow> verr list" where
  "failing ok field message = (if ok then [] else [\<lparr>path = field, msg = message\<rparr>])"

section \<open>Login: \<^verbatim>\<open>POST /api/auth/login\<close>\<close>

record admin =
  admin_id :: nat
  username :: string
  password :: string
  admin_created_at :: nat

text \<open>
  \<^verbatim>\<open>body('username').trim().isLength({ min: 1 })\<close>,
  \<^verbatim>\<open>body('password').isLength({ min: 1 })\<close>: the errors in chain order, and the body
  with the sanitized username written back.
\<close>

definition login_validation :: "reqbody \<Rightarrow> verr list \<times> reqbody" where
  "login_validation b =
     (let u = trim (str (b ''username''))
      in (failing (1 \<le> length u) ''username'' ''Username is required''
          @ failing (1 \<le> length (str (b ''password''))) ''password'' ''Password is required'',
          b(''username'' \<mapsto> u)))"

text \<open>\<^verbatim>\<open>SELECT * FROM admins WHERE username = ?\<close>\<close>

definition select_admins :: "admin list \<Rightarrow> string \<Rightarrow> admin list" where
  "select_admins admins u = filter (\<lambda>a. username a = u) admins"

definition login_handler :: "lib \<Rightarrow> faults \<Rightarrow> admin list \<Rightarrow> nat \<Rightarrow> reqbody \<Rightarrow> response" where
  "login_handler L fault admins now b =
     (case login_validation b of (errs, b') \<Rightarrow>
        if errs \<noteq> [] then Response 400 (ErrorDetails ''Invalid input'' errs)
        else
          (case execute fault 0 (Inr (select_admins admins (str (b' ''username'')))) of
             Inl e \<Rightarrow> Response 500 (Error ''Internal server error'')
           | Inr rows \<Rightarrow>
               (case index rows 0 of
                  None \<Rightarrow> Response 401 (Error ''Invalid credentials'')
                | Some a \<Rightarrow>
                    if \<not> compareSync L (str (b' ''password'')) (password a)
                    then Response 401 (Error ''Invalid credentials'')
                    else Response 200
                           (LoginOk ''Login successful''
                              (jwt_sign L \<lparr>user_id = admin_id a, user_name = username a\<rparr> now)
                              \<lparr>user_id = admin_id a, user_name = username a\<rparr>))))"

subsection \<open>The login rate limiter\<close>

text \<open>
  Modelled from the spec: the middleware that \<^verbatim>\<open>rateLimit\<close> of express-rate-limit
  returns is not in the repository; the source only configures it
  (\<^verbatim>\<open>windowMs: 15 * 60 * 1000\<close>, \<^verbatim>\<open>max: 5\<close>, the message) and puts it first on the
  login route. Following the spec, the limiter keeps, per calling origin, the attempts
  of the last \<open>windowMs\<close> milliseconds (a sliding window), and rejects an attempt when
  \<open>max\<close> attempts of that origin already lie in the window. Every attempt is
  recorded, rejected or not.
\<close>

type_synonym limiter = "(string \<times> nat) list"

definition windowMs :: nat where
  "windowMs = 15 * 60 * 1000"

definition max_hits :: nat where
  "max_hits = 5"

definition in_window :: "string \<Rightarrow> nat \<Rightarrow> string \<times> nat \<Rightarrow> bool" where
  "in_window ip now hit = (fst hit = ip \<and> now < snd hit + windowMs)"

definition authLimiter :: "limiter \<Rightarrow> string \<Rightarrow> nat \<Rightarrow> response option \<times> limiter" where
  "authLimiter lim ip now =
     (if max_hits \<le> length (filter (in_window ip now) lim)
      then Some (Response 429 (Error ''Too many authentication attempts, please try again later.''))
      else None,
      (ip, now) # lim)"

record login_req =
  origin :: string
  at :: nat
  creds :: reqbody
  storage :: faults

text \<open>
  \<^verbatim>\<open>app.post('/api/auth/login', authLimiter, [...], handler)\<close>: the limiter runs first;
  the validators and the handler run only when it lets the request through.
\<close>

definition login_route :: "lib \<Rightarrow> admin list \<Rightarrow> limiter \<Rightarrow> login_req \<Rightarrow> response \<times> limiter" where
  "login_route L admins lim rq =
     (case authLimiter lim (origin rq) (at rq) of
        (Some r, lim') \<Rightarrow> (r, lim')
      | (None, lim') \<Rightarrow> (login_handler L (storage rq) admins (at rq) (creds rq), lim'))"

text \<open>The server handling login requests one after the other.\<close>

fun serve_logins :: "lib \<Rightarrow> admin list \<Rightarrow> limiter \<Rightarrow> login_req list \<Rightarrow> response list" where
  "serve_logins L admins lim [] = []"
| "serve_logins L admins lim (rq # rqs) =
     fst (login_route L admins lim rq) # serve_logins L admins (snd (login_route L admins lim rq)) rqs"

section \<open>The employee table\<close>

text \<open>
  The table holds its rows in insertion order together with the next
  \<^verbatim>\<open>AUTO_INCREMENT\<close> value. \<^verbatim>\<open>email\<close> is declared \<^verbatim>\<open>UNIQUE\<close>: an insert or update
  that would give two rows the same email is rejected with \<^verbatim>\<open>ER_DUP_ENTRY\<close> and
  changes nothing. Column widths and formats are not modelled; a statement that the
  server refuses for such a reason is a fault of the request's environment.
\<close>

record store =
  rows :: "employee list"
  next_id :: nat

definition empty_store :: store where
  "empty_store = \<lparr>rows = [], next_id = 1\<rparr>"

text \<open>\<^verbatim>\<open>SELECT * FROM employees WHERE email = ?\<close>\<close>

definition select_by_email :: "store \<Rightarrow> string option \<Rightarrow> employee list" where
  "select_by_email s e = filter (\<lambda>r. Some (email (cols r)) = e) (rows s)"

text \<open>\<^verbatim>\<open>SELECT * FROM employees WHERE id = ?\<close>\<close>

definition select_by_id :: "store \<Rightarrow> nat \<Rightarrow> employee list" where
  "select_by_id s i = filter (\<lambda>r. emp_id r = i) (rows s)"

text \<open>\<^verbatim>\<open>SELECT * FROM employees WHERE email = ? AND id != ?\<close>\<close>

definition select_duplicates :: "store \<Rightarrow> string option \<Rightarrow> nat \<Rightarrow> employee list" where
  "select_duplicates s e i =
     filter (\<lambda>r. Some (email (cols r)) = e \<and> emp_id r \<noteq> i) (rows s)"

text \<open>
  \<^verbatim>\<open>INSERT INTO employees (...) VALUES (?, ?, ?, ?, ?, ?, ?, ?, ?)\<close>. The parameter
  list is \<open>None\<close> when one of its values is \<^verbatim>\<open>undefined\<close>: \<^verbatim>\<open>pool.execute\<close> of mysql2
  refuses such a list and throws before anything is sent. The timestamps default to the
  current time; the result carries \<^verbatim>\<open>insertId\<close>.
\<close>

definition insert_employee :: "nat \<Rightarrow> store \<Rightarrow> fields option \<Rightarrow> db_error + (nat \<times> store)" where
  "insert_employee now s params =
     (case params of
        None \<Rightarrow> Inl ER_OTHER
      | Some c \<Rightarrow>
          if email c \<in> set (map (\<lambda>r. email (cols r)) (rows s)) then Inl ER_DUP_ENTRY
          else Inr (next_id s,
                    \<lparr>rows = rows s @ [\<lparr>emp_id = next_id s, cols = c,
                                        created_at = now, updated_at = now\<rparr>],
                     next_id = Suc (next_id s)\<rparr>))"

text \<open>
  \<^verbatim>\<open>UPDATE employees SET ... WHERE id = ?\<close>. \<^verbatim>\<open>updated_at\<close> is
  \<^verbatim>\<open>ON UPDATE CURRENT_TIMESTAMP\<close>: it is refreshed when the row changes.
\<close>

definition update_row :: "nat \<Rightarrow> fields \<Rightarrow> employee \<Rightarrow> employee" where
  "update_row now c r =
     (if cols r = c then r else r\<lparr>cols := c, updated_at := now\<rparr>)"

definition update_employee_row :: "nat \<Rightarrow> store \<Rightarrow> nat \<Rightarrow> fields option \<Rightarrow> db_error + store" where
  "update_employee_row now s i params =
     (case params of
        None \<Rightarrow> Inl ER_OTHER
      | Some c \<Rightarrow>
          if select_by_id s i \<noteq> [] \<and> select_duplicates s (Some (email c)) i \<noteq> []
          then Inl ER_DUP_ENTRY
          else Inr (s\<lparr>rows := map (\<lambda>r. if emp_id r = i then update_row now c r else r) (rows s)\<rparr>))"

text \<open>\<^verbatim>\<open>DELETE FROM employees WHERE id = ?\<close>\<close>

definition delete_employee_row :: "store \<Rightarrow> nat \<Rightarrow> store" where
  "delete_employee_row s i = s\<lparr>rows := filter (\<lambda>r. emp_id r \<noteq> i) (rows s)\<rparr>"

section \<open>Employee routes\<close>

text \<open>
  The environment of one request: the clock reading, the storage faults, and what
  other requests, handled concurrently, did to the table just before this request's
  statement number \<open>k\<close> (for \<open>k \<ge> 1\<close>).
\<close>

record env =
  clock :: nat
  failures :: faults
  concurrent :: "nat \<Rightarrow> store \<Rightarrow> store"

text \<open>
  \<^verbatim>\<open>employeeValidation\<close>: the nine chains in order. The result is the list of
  violations (\<^verbatim>\<open>errors.array()\<close>) and \<^verbatim>\<open>req.body\<close> with the sanitized values written
  back. \<^verbatim>\<open>optional()\<close> skips the chain of a field that is absent.
\<close>

definition employeeValidation :: "lib \<Rightarrow> reqbody \<Rightarrow> verr list \<times> reqbody" where
  "employeeValidation L b =
     (let fn = trim (str (b ''first_name''));
          ln = trim (str (b ''last_name''));
          pos = trim (str (b ''position''));
          dep = trim (str (b ''department''))
      in (failing (isLength 1 50 fn) ''first_name''
            ''First name is required and must be less than 50 characters''
          @ failing (isLength 1 50 ln) ''last_name''
            ''Last name is required and must be less than 50 characters''
          @ failing (isEmail L (str (b ''email''))) ''email'' ''Valid email is required''
          @ failing (isLength 1 100 pos) ''position''
            ''Position is required and must be less than 100 characters''
          @ failing (isLength 1 100 dep) ''department''
            ''Department is required and must be less than 100 characters''
          @ failing (isFloatMin0 L (str (b ''salary''))) ''salary''
            ''Salary must be a positive number''
          @ failing (isDate L (str (b ''hire_date''))) ''hire_date''
            ''Valid hire date is required''
          @ (case b ''phone'' of
               None \<Rightarrow> []
             | Some p \<Rightarrow> failing (isMobilePhone L p) ''phone'' ''Valid phone number required'')
          @ (case b ''address'' of
               None \<Rightarrow> []
             | Some a \<Rightarrow> failing (isLength 0 200 a) ''address''
                          ''Address must be less than 200 characters''),
          b(''first_name'' \<mapsto> fn, ''last_name'' \<mapsto> ln,
            ''email'' \<mapsto> normalizeEmail L (str (b ''email'')),
            ''position'' \<mapsto> pos, ''department'' \<mapsto> dep)))"

text \<open>
  \<^verbatim>\<open>const { first_name, ..., address } = req.body;\<close> as the parameter list of the
  insert and the update: \<open>None\<close> when one of the nine is \<^verbatim>\<open>undefined\<close>, the optional
  \<^verbatim>\<open>phone\<close> and \<^verbatim>\<open>address\<close> included.
\<close>

definition params_of :: "reqbody \<Rightarrow> fields option" where
  "params_of b =
     (case (b ''first_name'', b ''last_name'', b ''email'', b ''position'',
            b ''department'', b ''salary'', b ''hire_date'', b ''phone'', b ''address'') of
        (Some fn, Some ln, Some em, Some pos, Some dep, Some sal, Some hdate,
         Some ph, Some addr) \<Rightarrow>
          Some \<lparr>first_name = fn, last_name = ln, email = em, position = pos,
                department = dep, salary = sal, hire_date = hdate,
                phone = Some ph, address = Some addr\<rparr>
      | _ \<Rightarrow> None)"

text \<open>\<^verbatim>\<open>{ id: result.insertId, ...req.body }\<close>: the fields of the body come last.\<close>

definition created_employee :: "nat \<Rightarrow> reqbody \<Rightarrow> obj" where
  "created_employee insertId b = [''id'' \<mapsto> JNum insertId] ++ (map_option JStr \<circ> b)"

text \<open>The \<^verbatim>\<open>catch\<close> blocks of the create and the update route.\<close>

definition create_failed :: "db_error \<Rightarrow> response" where
  "create_failed e =
     (if e = ER_DUP_ENTRY then Response 409 (Error ''Employee with this email already exists'')
      else Response 500 (Error ''Failed to create employee''))"

definition update_failed :: "db_error \<Rightarrow> response" where
  "update_failed e =
     (if e = ER_DUP_ENTRY
      then Response 409 (Error ''Another employee with this email already exists'')
      else Response 500 (Error ''Failed to update employee''))"

text \<open>\<^verbatim>\<open>POST /api/employees\<close>, after the auth gate.\<close>

definition create_employee :: "lib \<Rightarrow> env \<Rightarrow> reqbody \<Rightarrow> store \<Rightarrow> response \<times> store" where
  "create_employee L ev b s =
     (case employeeValidation L b of (errs, b') \<Rightarrow>
        if errs \<noteq> [] then (Response 400 (ErrorDetails ''Validation failed'' errs), s)
        else
          (case execute (failures ev) 0 (Inr (select_by_email s (b' ''email''))) of
             Inl e \<Rightarrow> (create_failed e, s)
           | Inr existingRows \<Rightarrow>
               if existingRows \<noteq> []
               then (Response 409 (Error ''Employee with this email already exists''), s)
               else
                 (let s1 = concurrent ev 1 s in
                  case execute (failures ev) 1 (insert_employee (clock ev) s1 (params_of b')) of
                    Inl e \<Rightarrow> (create_failed e, s1)
                  | Inr (insertId, s2) \<Rightarrow>
                      (Response 201 (Created ''Employee created successfully''
                                       (created_employee insertId b')), s2))))"

text \<open>
  \<^verbatim>\<open>PUT /api/employees/:id\<close>, after the auth gate. The id of the path
  (\<^verbatim>\<open>req.params.id\<close>) is the number \<open>i\<close>.
\<close>

definition update_employee :: "lib \<Rightarrow> env \<Rightarrow> nat \<Rightarrow> reqbody \<Rightarrow> store \<Rightarrow> response \<times> store" where
  "update_employee L ev i b s =
     (case employeeValidation L b of (errs, b') \<Rightarrow>
        if errs \<noteq> [] then (Response 400 (ErrorDetails ''Validation failed'' errs), s)
        else
          (case execute (failures ev) 0 (Inr (select_by_id s i)) of
             Inl e \<Rightarrow> (update_failed e, s)
           | Inr existingRows \<Rightarrow>
               if existingRows = [] then (Response 404 (Error ''Employee not found''), s)
               else
                 (let s1 = concurrent ev 1 s in
                  case execute (failures ev) 1 (Inr (select_duplicates s1 (b' ''email'') i)) of
                    Inl e \<Rightarrow> (update_failed e, s1)
                  | Inr duplicateRows \<Rightarrow>
                      if duplicateRows \<noteq> []
                      then (Response 409
                              (Error ''Another employee with this email already exists''), s1)
                      else
                        (let s2 = concurrent ev 2 s1 in
                         case execute (failures ev) 2
                                (update_employee_row (clock ev) s2 i (params_of b')) of
                           Inl e \<Rightarrow> (update_failed e, s2)
                         | Inr s3 \<Rightarrow>
                             (Response 200 (Message ''Employee updated successfully''), s3)))))"

text \<open>\<^verbatim>\<open>GET /api/employees/:id\<close>, after the auth gate.\<close>

definition get_employee :: "env \<Rightarrow> nat \<Rightarrow> store \<Rightarrow> response \<times> store" where
  "get_employee ev i s =
     (case execute (failures ev) 0 (Inr (select_by_id s i)) of
        Inl e \<Rightarrow> (Response 500 (Error ''Failed to fetch employee''), s)
      | Inr found \<Rightarrow>
          (case index found 0 of
             None \<Rightarrow> (Response 404 (Error ''Employee not found''), s)
           | Some r \<Rightarrow> (Response 200 (Row r), s)))"

text \<open>\<^verbatim>\<open>DELETE /api/employees/:id\<close>, after the auth gate.\<close>

definition delete_employee :: "env \<Rightarrow> nat \<Rightarrow> store \<Rightarrow> response \<times> store" where
  "delete_employee ev i s =
     (case execute (failures ev) 0 (Inr (select_by_id s i)) of
        Inl e \<Rightarrow> (Response 500 (Error ''Failed to delete employee''), s)
      | Inr existingRows \<Rightarrow>
          if existingRows = [] then (Response 404 (Error ''Employee not found''), s)
          else
            (let s1 = concurrent ev 1 s in
             case execute (failures ev) 1 (Inr (delete_employee_row s1 i)) of
               Inl e \<Rightarrow> (Response 500 (Error ''Failed to delete employee''), s1)
             | Inr s2 \<Rightarrow> (Response 200 (Message ''Employee deleted successfully''), s2)))"

text \<open>
  The states of the table that the server can produce. The table is created empty; the
  only statements that change it are the insert of the create route, the update of the
  update route and the delete of the delete route, and the email those routes write
  has gone through \<^verbatim>\<open>normalizeEmail\<close>. Statements of concurrent requests interleave
  freely.
\<close>

inductive reachable :: "lib \<Rightarrow> store \<Rightarrow> bool" for L :: lib where
  created: "reachable L empty_store"
| inserted: "reachable L s \<Longrightarrow> email c = normalizeEmail L e \<Longrightarrow>
     insert_employee now s (Some c) = Inr (i, s') \<Longrightarrow> reachable L s'"
| updated: "reachable L s \<Longrightarrow> email c = normalizeEmail L e \<Longrightarrow>
     update_employee_row now s i (Some c) = Inr s' \<Longrightarrow> reachable L s'"
| deleted: "reachable L s \<Longrightarrow> reachable L (delete_employee_row s i)"

text \<open>
  What every reachable table satisfies: ids are distinct and below the next
  \<^verbatim>\<open>AUTO_INCREMENT\<close> value, emails are distinct, and every email is a result of
  \<^verbatim>\<open>normalizeEmail\<close>.
\<close>

definition table_ok :: "lib \<Rightarrow> store \<Rightarrow> bool" where
  "table_ok L s =
     (distinct (map emp_id (rows s))
      \<and> list_all (\<lambda>r. emp_id r < next_id s) (rows s)
      \<and> distinct (map (\<lambda>r. email (cols r)) (rows s))
      \<and> list_all (\<lambda>r. email (cols r) \<in> range (normalizeEmail L)) (rows s))"

section \<open>The client's form check\<close>

text \<open>
  \<^verbatim>\<open>validateForm\<close> of \<^verbatim>\<open>EmployeeForm.tsx\<close> guards every create and update the form
  submits. Its phone rule:
  \<^verbatim>\<open>if (employee.phone && !/^[\d\s\-\+\(\)]+$/.test(employee.phone)) newErrors.phone = 'Invalid phone number';\<close>
\<close>

definition digit :: "char \<Rightarrow> bool" where
  "digit c = (48 \<le> (of_char c :: nat) \<and> (of_char c :: nat) \<le> 57)"

definition phone_class :: "char \<Rightarrow> bool" where
  "phone_class c =
     (digit c \<or> whitespace c \<or> c = CHR ''-'' \<or> c = CHR ''+'' \<or> c = CHR ''('' \<or> c = CHR '')'')"

definition phone_pattern :: "string \<Rightarrow> bool" where
  "phone_pattern p = (p \<noteq> [] \<and> list_all phone_class p)"

definition validateForm_phone :: "string option \<Rightarrow> string option" where
  "validateForm_phone ph =
     (if \<not> falsy ph \<and> \<not> phone_pattern (str ph) then Some ''Invalid phone number'' else None)"

section \<open>Sample library, requests and tables\<close>

text \<open>
  Used only to evaluate the model at concrete requests. It is not a model of the real
  libraries: an email has an at sign and no space and is normalized by lower-casing, a
  salary is a string of digits, a date has ten characters, a mobile phone number is ten
  digits, one token (\<open>''tok''\<close>) is valid for a day, and a password matches the digest
  that is its own reversal.
\<close>

text \<open>
  Letter case: \<open>lower\<close> is JavaScript's \<^verbatim>\<open>toLowerCase\<close> on a code unit below 256. Two
  strings differ only by letter case when \<open>map lower\<close> makes them equal.
\<close>

definition lower :: "char \<Rightarrow> char" where
  "lower c =
     (if 65 \<le> (of_char c :: nat) \<and> (of_char c :: nat) \<le> 90
         \<or> 192 \<le> (of_char c :: nat) \<and> (of_char c :: nat) \<le> 222 \<and> (of_char c :: nat) \<noteq> 215
      then char_of ((of_char c :: nat) + 32) else c)"

definition sample_lib :: lib where
  "sample_lib =
     \<lparr> isEmail = (\<lambda>e. CHR ''@'' \<in> set e \<and> CHR '' '' \<notin> set e),
       normalizeEmail = map lower,
       isFloatMin0 = (\<lambda>v. v \<noteq> [] \<and> list_all digit v),
       isDate = (\<lambda>v. length v = 10),
       isMobilePhone = (\<lambda>v. length v = 10 \<and> list_all digit v),
       compareSync = (\<lambda>p h. h = rev p),
       jwt_sign = (\<lambda>u t. ''tok''),
       jwt_verify = (\<lambda>t now. if t = ''tok'' \<and> now < 86400000
                              then Some \<lparr>user_id = 1, user_name = ''admin''\<rparr> else None) \<rparr>"

definition sample_admins :: "admin list" where
  "sample_admins =
     [\<lparr>admin_id = 1, username = ''admin'', password = ''321nimda'', admin_created_at = 0\<rparr>]"

definition no_faults :: faults where
  "no_faults = (\<lambda>k. None)"

definition attempt :: "string \<Rightarrow> nat \<Rightarrow> string \<Rightarrow> string \<Rightarrow> login_req" where
  "attempt ip t u p =
     \<lparr>origin = ip, at = t, creds = [''username'' \<mapsto> u, ''password'' \<mapsto> p], storage = no_faults\<rparr>"

definition six_attempts :: "login_req list" where
  "six_attempts =
     [attempt ''10.0.0.7'' 0 ''admin'' ''admin123'',
      attempt ''10.0.0.7'' 1000 ''admin'' ''admin123'',
      attempt ''10.0.0.7'' 2000 ''admin'' ''admin123'',
      attempt ''10.0.0.7'' 3000 ''admin'' ''admin123'',
      attempt ''10.0.0.7'' 4000 ''admin'' ''admin123'',
      attempt ''10.0.0.7'' 899999 ''admin'' ''admin123'']"

definition quiet :: env where
  "quiet = \<lparr>clock = 1000, failures = no_faults, concurrent = (\<lambda>k s. s)\<rparr>"

definition alice :: reqbody where
  "alice = [''first_name'' \<mapsto> '' Alice'', ''last_name'' \<mapsto> ''Moreau'',
            ''email'' \<mapsto> ''Alice@Example.com'', ''position'' \<mapsto> ''Engineer'',
            ''department'' \<mapsto> ''Research'', ''salary'' \<mapsto> ''52000'',
            ''hire_date'' \<mapsto> ''2024-03-01'', ''phone'' \<mapsto> ''5550100123'',
            ''address'' \<mapsto> ''1 Main Street'']"

definition bob :: reqbody where
  "bob = [''first_name'' \<mapsto> ''Bob'', ''last_name'' \<mapsto> ''Ng'',
          ''email'' \<mapsto> ''bob@example.com'', ''position'' \<mapsto> ''Analyst'',
          ''department'' \<mapsto> ''Finance'', ''salary'' \<mapsto> ''48000'',
          ''hire_date'' \<mapsto> ''2023-11-15'', ''phone'' \<mapsto> ''5550100456'',
          ''address'' \<mapsto> ''2 Side Street'']"

definition alice_row :: employee where
  "alice_row =
     \<lparr>emp_id = 1,
      cols = \<lparr>first_name = ''Alice'', last_name = ''Moreau'', email = ''alice@example.com'',
               position = ''Engineer'', department = ''Research'', salary = ''52000'',
               hire_date = ''2024-03-01'', phone = Some ''5550100123'',
               address = Some ''1 Main Street''\<rparr>,
      created_at = 1000, updated_at = 1000\<rparr>"

definition bob_row :: employee where
  "bob_row =
     \<lparr>emp_id = 2,
      cols = \<lparr>first_name = ''Bob'', last_name = ''Ng'', email = ''bob@example.com'',
               position = ''Analyst'', department = ''Finance'', salary = ''48000'',
               hire_date = ''2023-11-15'', phone = Some ''5550100456'',
               address = Some ''2 Side Street''\<rparr>,
      created_at = 1000, updated_at = 1000\<rparr>"

definition one_employee :: store where
  "one_employee = \<lparr>rows = [alice_row], next_id = 2\<rparr>"

definition two_employees :: store where
  "two_employees = \<lparr>rows = [alice_row, bob_row], next_id = 3\<rparr>"

text \<open>
  A concurrent create request for Bob, handled at time 1000, whose insert lands just
  before this request's statement number \<open>k0\<close>.
\<close>

definition insert_bob :: "store \<Rightarrow> store" where
  "insert_bob s =
     (case insert_employee 1000 s (Some (cols bob_row)) of
        Inl e \<Rightarrow> s
      | Inr (i, s') \<Rightarrow> s')"

definition racing :: "nat \<Rightarrow> env" where
  "racing k0 = \<lparr>clock = 2000, failures = no_faults,
                 concurrent = (\<lambda>k s. if k = k0 then insert_bob s else s)\<rparr>"

definition to_bob :: reqbody where
  "to_bob = alice(''email'' \<mapsto> ''BOB@Example.com'')"

definition alice_again :: reqbody where
  "alice_again = alice(''email'' \<mapsto> ''ALICE@example.COM'')"

text \<open>
  A second sample library. Its \<open>normalizeEmail\<close> does what validator.js's does, with the
  default options, to an address of \<^verbatim>\<open>yahoo.com\<close>: the part of the local name after the
  last dash is dropped, and the address is lower-cased. Other addresses are lower-cased.
\<close>

fun join :: "char \<Rightarrow> string list \<Rightarrow> string" where
  "join sep [] = []"
| "join sep [x] = x"
| "join sep (x # y # ys) = x @ sep # join sep (y # ys)"

definition yahoo_normalize :: "string \<Rightarrow> string" where
  "yahoo_normalize e =
     (let raw_parts = split (CHR ''@'') e;
          domain = map lower (last raw_parts);
          user = join (CHR ''@'') (butlast raw_parts);
          components = split (CHR ''-'') user
      in map lower
           (if domain = ''yahoo.com''
            then (if 1 < length components then join (CHR ''-'') (butlast components)
                  else hd components)
            else user)
         @ CHR ''@'' # domain)"

definition yahoo_lib :: lib where
  "yahoo_lib = sample_lib\<lparr>normalizeEmail := yahoo_normalize\<rparr>"

definition mary :: reqbody where
  "mary = bob(''email'' \<mapsto> ''mary-ann-smith@yahoo.com'')"

definition mary_again :: reqbody where
  "mary_again = bob(''email'' \<mapsto> ''Mary-Ann@yahoo.com'')"

definition mary_row :: employee where
  "mary_row = bob_row\<lparr>emp_id := 1, cols := (cols bob_row)\<lparr>email := ''mary-ann@yahoo.com''\<rparr>\<rparr>"

definition mary_store :: store where
  "mary_store = \<lparr>rows = [mary_row], next_id = 2\<rparr>"


definition bob_dash :: reqbody where
  "bob_dash = bob(''phone'' \<mapsto> ''-'')"

section \<open>Properties of the auth gate\<close>

lemma split_nonempty: "split sep xs \<noteq> []"
  by (induction xs) auto

lemma split_no_sep: "sep \<notin> set xs \<Longrightarrow> split sep xs = [xs]"
  by (induction xs) auto

lemma hd_split: "hd (split sep xs) = takeWhile (\<lambda>c. c \<noteq> sep) xs"
  by (induction xs) auto

lemma split_at_first: "sep \<notin> set pre \<Longrightarrow> split sep (pre @ sep # rest) = pre # split sep rest"
  by (induction pre) auto

lemma index_one_split:
  assumes "index (split sep h) 1 = Some t"
  shows "\<exists>pre rest. h = pre @ sep # t @ rest \<and> sep \<notin> set pre \<and> sep \<notin> set t
           \<and> (rest = [] \<or> hd rest = sep)"
proof -
  have "sep \<in> set h"
  proof (rule ccontr)
    assume "sep \<notin> set h"
    then have "split sep h = [h]" by (rule split_no_sep)
    with assms show False by (simp add: index_def)
  qed
  then obtain pre r where h: "h = pre @ sep # r" and pre: "sep \<notin> set pre"
    by (auto dest: split_list_first)
  have "split sep h = pre # split sep r"
    unfolding h using pre by (rule split_at_first)
  with assms have "Some t = Some (hd (split sep r))"
    using split_nonempty [of sep r]
    by (cases "split sep r") (auto simp: index_def)
  then have t: "t = takeWhile (\<lambda>c. c \<noteq> sep) r"
    by (simp add: hd_split)
  define rest where "rest = dropWhile (\<lambda>c. c \<noteq> sep) r"
  have "r = t @ rest" by (simp add: t rest_def)
  moreover have "sep \<notin> set t"
    unfolding t by (auto dest: set_takeWhileD)
  moreover have "rest = [] \<or> hd rest = sep"
    unfolding rest_def using hd_dropWhile [of "\<lambda>c. c \<noteq> sep" r] by auto
  ultimately show ?thesis using h pre by blast
qed

text \<open>
  C7. Credential validation answers 401 (Unauthorized) exactly when the token extracted
  from the authorization header is missing or empty, and 403 (Forbidden) exactly when a
  non-empty token was extracted and \<^verbatim>\<open>jwt.verify\<close> reports an error. These are the only
  two failures, they differ, and on either of them the route's handler does not run: the
  response is the gate's and the state is untouched, whatever the handler is.
\<close>

theorem authenticateToken_failure_kinds:
  "(authenticateToken L now h = Inl (Response 401 (Error ''Access token required''))
      \<longleftrightarrow> falsy (token_of h))
   \<and> (authenticateToken L now h = Inl (Response 403 (Error ''Invalid or expired token''))
      \<longleftrightarrow> (\<exists>t. token_of h = Some t \<and> t \<noteq> [] \<and> jwt_verify L t now = None))
   \<and> (\<forall>r. authenticateToken L now h = Inl r \<longrightarrow>
        (status r = 401 \<or> status r = 403)
        \<and> (status r = 401 \<longleftrightarrow> falsy (token_of h))
        \<and> protected L now h handler s = (r, s))"
  by (auto simp: authenticateToken_def falsy_def protected_def
      split: option.splits if_splits)

theorem authenticateToken_failure_kinds_witness:
  "authenticateToken sample_lib 0 None = Inl (Response 401 (Error ''Access token required''))
   \<and> status (Response 401 (Error ''Access token required'')) = 401
   \<and> falsy (token_of None)
   \<and> protected sample_lib 0 None (\<lambda>u s. (Response 200 (Verified u), Suc s)) (7::nat)
       = (Response 401 (Error ''Access token required''), 7)
   \<and> authenticateToken sample_lib 0 (Some ''Bearer bad'')
       = Inl (Response 403 (Error ''Invalid or expired token''))
   \<and> \<not> falsy (token_of (Some ''Bearer bad''))
   \<and> protected sample_lib 0 (Some ''Bearer bad'') (\<lambda>u s. (Response 200 (Verified u), Suc s)) (7::nat)
       = (Response 403 (Error ''Invalid or expired token''), 7)"
proof -
  let ?hd = "\<lambda>(u::user) (s::nat). (Response 200 (Verified u), Suc s)"
  have a: "authenticateToken sample_lib 0 None = Inl (Response 401 (Error ''Access token required''))"
    by (simp add: authenticateToken_def token_of_def)
  have b: "authenticateToken sample_lib 0 (Some ''Bearer bad'')
             = Inl (Response 403 (Error ''Invalid or expired token''))"
    by (simp add: authenticateToken_def token_of_def index_def sample_lib_def)
  from authenticateToken_failure_kinds [of sample_lib 0 None ?hd 7] a
  have "falsy (token_of None)
        \<and> protected sample_lib 0 None ?hd 7 = (Response 401 (Error ''Access token required''), 7)"
    by simp
  moreover from authenticateToken_failure_kinds [of sample_lib 0 "Some ''Bearer bad''" ?hd 7] b
  have "\<not> falsy (token_of (Some ''Bearer bad''))
        \<and> protected sample_lib 0 (Some ''Bearer bad'') ?hd 7
            = (Response 403 (Error ''Invalid or expired token''), 7)"
    by simp
  ultimately show ?thesis using a b by simp
qed

text \<open>
  C10. An authorization header that is present but contains no space yields 401, not
  403: \<^verbatim>\<open>split(' ')[1]\<close> is undefined. A token that reaches \<^verbatim>\<open>jwt.verify\<close> is always
  the text that follows the first space of the header, up to the next space or the end.
\<close>

theorem header_without_space_unauthorized:
  "(CHR '' '' \<notin> set h \<longrightarrow>
      authenticateToken L now (Some h) = Inl (Response 401 (Error ''Access token required'')))
   \<and> (token_of (Some h) = Some t \<and> t \<noteq> [] \<longrightarrow>
        (\<exists>pre rest. h = pre @ CHR '' '' # t @ rest \<and> CHR '' '' \<notin> set pre
           \<and> CHR '' '' \<notin> set t \<and> (rest = [] \<or> hd rest = CHR '' '')))"
proof (intro conjI impI)
  assume "CHR '' '' \<notin> set h"
  then have "split (CHR '' '') h = [h]" by (rule split_no_sep)
  then show "authenticateToken L now (Some h) = Inl (Response 401 (Error ''Access token required''))"
    by (simp add: authenticateToken_def token_of_def index_def)
next
  assume "token_of (Some h) = Some t \<and> t \<noteq> []"
  then have "index (split (CHR '' '') h) 1 = Some t"
    by (auto simp: token_of_def split: if_splits)
  then show "\<exists>pre rest. h = pre @ CHR '' '' # t @ rest \<and> CHR '' '' \<notin> set pre
           \<and> CHR '' '' \<notin> set t \<and> (rest = [] \<or> hd rest = CHR '' '')"
    by (rule index_one_split)
qed

theorem header_without_space_unauthorized_witness:
  "CHR '' '' \<notin> set ''Bearer''
   \<and> authenticateToken sample_lib 0 (Some ''Bearer'') = Inl (Response 401 (Error ''Access token required''))
   \<and> token_of (Some ''Bearer tok extra'') = Some ''tok'' \<and> ''tok'' \<noteq> []
   \<and> (\<exists>pre rest. ''Bearer tok extra'' = pre @ CHR '' '' # ''tok'' @ rest \<and> CHR '' '' \<notin> set pre
           \<and> CHR '' '' \<notin> set ''tok'' \<and> (rest = [] \<or> hd rest = CHR '' ''))"
proof -
  have a: "CHR '' '' \<notin> set ''Bearer''" by simp
  have b: "token_of (Some ''Bearer tok extra'') = Some ''tok'' \<and> ''tok'' \<noteq> []"
    by (simp add: token_of_def index_def)
  from header_without_space_unauthorized [of "''Bearer''" sample_lib 0] a
  have c: "authenticateToken sample_lib 0 (Some ''Bearer'')
             = Inl (Response 401 (Error ''Access token required''))"
    by blast
  from header_without_space_unauthorized [of "''Bearer tok extra''" sample_lib 0 "''tok''"] b
  have d: "\<exists>pre rest. ''Bearer tok extra'' = pre @ CHR '' '' # ''tok'' @ rest \<and> CHR '' '' \<notin> set pre
           \<and> CHR '' '' \<notin> set ''tok'' \<and> (rest = [] \<or> hd rest = CHR '' '')"
    by blast
  from a b c d show ?thesis by blast
qed

section \<open>Properties of login\<close>

text \<open>
  C2. Among the login requests that pass input validation and whose administrator lookup
  succeeds, one naming no administrator and one naming an administrator with a password
  that does not match the stored digest get the same response: status 401 with the
  message \<open>Invalid credentials\<close>.
\<close>

theorem login_failure_indistinguishable:
  assumes "fst (login_validation b1) = []" and "fst (login_validation b2) = []"
    and "fault 0 = None"
    and "select_admins admins (trim (str (b1 ''username''))) = []"
    and "index (select_admins admins (trim (str (b2 ''username''))) ) 0 = Some a"
    and "\<not> compareSync L (str (b2 ''password'')) (password a)"
  shows "login_handler L fault admins now b1 = login_handler L fault admins now b2
         \<and> login_handler L fault admins now b1 = Response 401 (Error ''Invalid credentials'')"
proof -
  have 1: "login_handler L fault admins now b1 = Response 401 (Error ''Invalid credentials'')"
    using assms(1,3,4)
    by (simp add: login_handler_def login_validation_def execute_def index_def str_def Let_def)
  have 2: "login_handler L fault admins now b2 = Response 401 (Error ''Invalid credentials'')"
    using assms(2,3,5,6)
    by (simp add: login_handler_def login_validation_def execute_def str_def Let_def)
  from 1 2 show ?thesis by simp
qed

theorem login_failure_indistinguishable_witness:
  "fst (login_validation [''username'' \<mapsto> ''ghost'', ''password'' \<mapsto> ''admin123'']) = []
   \<and> fst (login_validation [''username'' \<mapsto> '' admin '', ''password'' \<mapsto> ''letmein'']) = []
   \<and> no_faults 0 = None
   \<and> select_admins sample_admins (trim (str ([''username'' \<mapsto> ''ghost'', ''password'' \<mapsto> ''admin123''] ''username''))) = []
   \<and> index (select_admins sample_admins
        (trim (str ([''username'' \<mapsto> '' admin '', ''password'' \<mapsto> ''letmein''] ''username'')))) 0
       = Some \<lparr>admin_id = 1, username = ''admin'', password = ''321nimda'', admin_created_at = 0\<rparr>
   \<and> login_handler sample_lib no_faults sample_admins 5 [''username'' \<mapsto> ''ghost'', ''password'' \<mapsto> ''admin123'']
       = login_handler sample_lib no_faults sample_admins 5 [''username'' \<mapsto> '' admin '', ''password'' \<mapsto> ''letmein'']
   \<and> login_handler sample_lib no_faults sample_admins 5 [''username'' \<mapsto> ''ghost'', ''password'' \<mapsto> ''admin123'']
       = Response 401 (Error ''Invalid credentials'')"
proof -
  let ?b1 = "[''username'' \<mapsto> ''ghost'', ''password'' \<mapsto> ''admin123'']"
  let ?b2 = "[''username'' \<mapsto> '' admin '', ''password'' \<mapsto> ''letmein'']"
  let ?a = "\<lparr>admin_id = 1, username = ''admin'', password = ''321nimda'', admin_created_at = 0\<rparr>"
  have 1: "fst (login_validation ?b1) = []"
    by (simp add: login_validation_def failing_def trim_def whitespace_def str_def)
  have 2: "fst (login_validation ?b2) = []"
    by (simp add: login_validation_def failing_def trim_def whitespace_def str_def)
  have 3: "no_faults 0 = None" by (simp add: no_faults_def)
  have 4: "select_admins sample_admins (trim (str (?b1 ''username''))) = []"
    by (simp add: select_admins_def sample_admins_def trim_def whitespace_def str_def)
  have 5: "index (select_admins sample_admins (trim (str (?b2 ''username'')))) 0 = Some ?a"
    by (simp add: select_admins_def sample_admins_def trim_def whitespace_def str_def index_def)
  have 6: "\<not> compareSync sample_lib (str (?b2 ''password'')) (password ?a)"
    by (simp add: sample_lib_def str_def)
  note c = login_failure_indistinguishable [of ?b1 ?b2 no_faults sample_admins ?a sample_lib 5, OF 1 2 3 4 5 6]
  from 1 2 3 4 5 c show ?thesis by blast
qed

lemma snd_login_route: "snd (login_route L admins lim rq) = (origin rq, at rq) # lim"
  by (simp add: login_route_def authLimiter_def)

lemma limited_login_route:
  "max_hits \<le> length (filter (in_window (origin rq) (at rq)) lim) \<Longrightarrow>
   fst (login_route L admins lim rq)
     = Response 429 (Error ''Too many authentication attempts, please try again later.'')"
  by (simp add: login_route_def authLimiter_def)

lemma serve_logins_nth:
  "i < length rqs \<Longrightarrow>
   serve_logins L admins lim rqs ! i
     = fst (login_route L admins (rev (map (\<lambda>r. (origin r, at r)) (take i rqs)) @ lim) (rqs ! i))"
proof (induction rqs arbitrary: i lim)
  case Nil
  then show ?case by simp
next
  case (Cons rq rqs)
  show ?case
  proof (cases i)
    case 0
    then show ?thesis by simp
  next
    case (Suc k)
    with Cons.prems have "k < length rqs" by simp
    from Cons.IH [OF this] show ?thesis
      by (simp add: Suc snd_login_route)
  qed
qed

lemma hits_of_earlier:
  "length (filter (in_window ip now) (rev (map (\<lambda>r. (origin r, at r)) rqs) @ lim))
     = length (filter (\<lambda>r. origin r = ip \<and> now < at r + windowMs) rqs)
       + length (filter (in_window ip now) lim)"
proof -
  have "filter (in_window ip now) (map (\<lambda>r. (origin r, at r)) rqs)
          = map (\<lambda>r. (origin r, at r)) (filter (\<lambda>r. origin r = ip \<and> now < at r + windowMs) rqs)"
    by (induction rqs) (auto simp: in_window_def)
  then show ?thesis
    by (simp flip: rev_filter rev_map)
qed

text \<open>
  C6. Whatever the limiter has recorded before, and whatever the requests carry: a login
  request that is preceded by at least five requests of the same origin less than
  \<open>windowMs\<close> (15 minutes) before it is answered 429. In particular the sixth of six
  attempts made within 15 minutes is rejected, correct credentials or not.
\<close>

theorem sixth_login_attempt_rejected:
  assumes "i < length rqs"
    and "5 \<le> length (filter (\<lambda>r. origin r = origin (rqs ! i) \<and> at (rqs ! i) < at r + windowMs)
                       (take i rqs))"
  shows "serve_logins L admins lim rqs ! i
           = Response 429 (Error ''Too many authentication attempts, please try again later.'')"
proof -
  let ?lim = "rev (map (\<lambda>r. (origin r, at r)) (take i rqs)) @ lim"
  have "max_hits \<le> length (filter (in_window (origin (rqs ! i)) (at (rqs ! i))) ?lim)"
    unfolding hits_of_earlier max_hits_def using assms(2) by simp
  then have "fst (login_route L admins ?lim (rqs ! i))
               = Response 429 (Error ''Too many authentication attempts, please try again later.'')"
    by (rule limited_login_route)
  with assms(1) show ?thesis by (simp add: serve_logins_nth)
qed


lemma correct_credentials:
  "login_handler sample_lib no_faults sample_admins 899999 (creds (six_attempts ! 5))
     = Response 200 (LoginOk ''Login successful'' ''tok'' \<lparr>user_id = 1, user_name = ''admin''\<rparr>)"
  by (simp add: six_attempts_def attempt_def
      login_handler_def login_validation_def failing_def trim_def whitespace_def str_def
      execute_def no_faults_def select_admins_def sample_admins_def index_def sample_lib_def)

theorem sixth_login_attempt_rejected_witness:
  "(5::nat) < length six_attempts
   \<and> 5 \<le> length (filter (\<lambda>r. origin r = origin (six_attempts ! 5)
                               \<and> at (six_attempts ! 5) < at r + windowMs) (take 5 six_attempts))
   \<and> login_handler sample_lib no_faults sample_admins 899999 (creds (six_attempts ! 5))
       = Response 200 (LoginOk ''Login successful'' ''tok'' \<lparr>user_id = 1, user_name = ''admin''\<rparr>)
   \<and> serve_logins sample_lib sample_admins [] six_attempts ! 5
       = Response 429 (Error ''Too many authentication attempts, please try again later.'')"
proof -
  have a: "(5::nat) < length six_attempts" by (simp add: six_attempts_def)
  have b: "5 \<le> length (filter (\<lambda>r. origin r = origin (six_attempts ! 5)
                               \<and> at (six_attempts ! 5) < at r + windowMs) (take 5 six_attempts))"
    by (simp add: six_attempts_def attempt_def windowMs_def)
  from sixth_login_attempt_rejected [OF a b] a b correct_credentials show ?thesis by blast
qed

section \<open>Properties of the employee routes\<close>

subsection \<open>Evaluation at the sample requests\<close>

lemma validation_email:
  "snd (employeeValidation L b) ''email'' = Some (normalizeEmail L (str (b ''email'')))"
  by (simp add: employeeValidation_def Let_def)

lemma params_of_email: "params_of b = Some c \<Longrightarrow> b ''email'' = Some (email c)"
  by (auto simp: params_of_def split: option.splits)

lemma eq_char_of_iff: "c = char_of n \<longleftrightarrow> take_bit 8 n = of_char c"
  using char_of_eq_iff [of n c] by auto

lemma lower_lower: "lower (lower c) = lower c"
  by (simp add: lower_def)

lemma insert_bob_one: "insert_bob one_employee = two_employees"
  by (simp add: insert_bob_def insert_employee_def one_employee_def two_employees_def
      alice_row_def bob_row_def)

lemma racing_1: "concurrent (racing 1) 1 one_employee = two_employees"
  by (simp add: racing_def insert_bob_one)

lemma racing_2: "concurrent (racing 2) 1 one_employee = one_employee"
  "concurrent (racing 2) 2 one_employee = two_employees"
  by (simp_all add: racing_def insert_bob_one)

lemmas eval_defs =
  employeeValidation_def sample_lib_def failing_def isLength_def trim_def whitespace_def
  str_def digit_def Let_def lower_def char_of_eq_iff eq_char_of_iff no_faults_def execute_def

lemma alice_valid: "fst (employeeValidation sample_lib alice) = []"
  by (simp add: employeeValidation_def alice_def sample_lib_def failing_def isLength_def
      trim_def whitespace_def str_def digit_def Let_def)

lemma bob_valid: "employeeValidation sample_lib bob = ([], bob)"
  apply (simp add: employeeValidation_def bob_def sample_lib_def failing_def isLength_def
      trim_def whitespace_def str_def digit_def Let_def lower_def char_of_eq_iff)
  apply (rule ext)
  apply simp
  done

lemma bob_email: "normalizeEmail sample_lib (str (bob ''email'')) = ''bob@example.com''"
  by (simp add: bob_def eval_defs)

lemma bob_params: "params_of bob = Some (cols bob_row)"
  by (simp add: params_of_def bob_def bob_row_def)

lemma alice_created:
  "create_employee sample_lib quiet alice empty_store
     = (Response 201 (Created ''Employee created successfully''
          (created_employee 1 (snd (employeeValidation sample_lib alice)))), one_employee)"
  by (simp add: create_employee_def split_beta alice_valid validation_email execute_def
      quiet_def no_faults_def select_by_email_def empty_store_def insert_employee_def
      one_employee_def alice_row_def)
     (simp add: employeeValidation_def params_of_def alice_def sample_lib_def str_def trim_def
       whitespace_def lower_def Let_def char_of_eq_iff)

lemma alice_again_valid: "fst (employeeValidation sample_lib alice_again) = []"
  by (simp add: employeeValidation_def alice_again_def alice_def sample_lib_def failing_def
      isLength_def trim_def whitespace_def str_def digit_def Let_def)

lemma to_bob_valid: "fst (employeeValidation sample_lib to_bob) = []"
  by (simp add: to_bob_def alice_def eval_defs)

lemma to_bob_email: "normalizeEmail sample_lib (str (to_bob ''email'')) = ''bob@example.com''"
  by (simp add: to_bob_def eval_defs)

lemma to_bob_params:
  "params_of (snd (employeeValidation sample_lib to_bob))
     = Some ((cols alice_row)\<lparr>email := ''bob@example.com''\<rparr>)"
  by (simp add: params_of_def to_bob_def alice_def alice_row_def eval_defs)

subsection \<open>What the table satisfies in every reachable state\<close>

lemma emp_id_update_row: "emp_id (update_row now c r) = emp_id r"
  by (simp add: update_row_def)

lemma cols_update_row: "cols (update_row now c r) = c"
  by (simp add: update_row_def)

lemma distinct_emails_after_update:
  assumes "distinct (map emp_id rs)" and "distinct (map (\<lambda>r. email (cols r)) rs)"
    and "\<forall>r\<in>set rs. emp_id r \<noteq> i \<longrightarrow> email (cols r) \<noteq> email c"
  shows "distinct (map (\<lambda>r. email (cols (if emp_id r = i then update_row now c r else r))) rs)"
  using assms
proof (induction rs)
  case Nil
  then show ?case by simp
next
  case (Cons r rs)
  then have IH: "distinct (map (\<lambda>r. email (cols (if emp_id r = i then update_row now c r else r))) rs)"
    by simp
  show ?case
  proof (cases "emp_id r = i")
    case True
    have others: "\<forall>q\<in>set rs. emp_id q \<noteq> i"
      using Cons.prems(1) True by (auto simp: image_iff)
    with Cons.prems(3) have "\<forall>q\<in>set rs. email (cols q) \<noteq> email c" by auto
    with others IH True show ?thesis
      by (auto simp: cols_update_row)
  next
    case False
    with Cons.prems(3) have "email (cols r) \<noteq> email c" by simp
    moreover have "\<forall>q\<in>set rs. email (cols q) \<noteq> email (cols r)"
      using Cons.prems(2) by (auto simp: image_iff)
    ultimately show ?thesis using IH False
      by (auto simp: cols_update_row split: if_splits)
  qed
qed

lemma table_ok_insert:
  assumes "table_ok L s" and "email c = normalizeEmail L e"
    and "insert_employee now s (Some c) = Inr (i, s')"
  shows "table_ok L s'"
proof -
  from assms(3) have fresh: "email c \<notin> set (map (\<lambda>r. email (cols r)) (rows s))"
    and s': "s' = \<lparr>rows = rows s @ [\<lparr>emp_id = next_id s, cols = c,
                                        created_at = now, updated_at = now\<rparr>],
                   next_id = Suc (next_id s)\<rparr>"
    by (auto simp: insert_employee_def split: if_splits)
  from assms(1) have "\<forall>r\<in>set (rows s). emp_id r < next_id s"
    by (simp add: table_ok_def list_all_iff)
  then have "next_id s \<notin> emp_id ` set (rows s)" and "\<forall>r\<in>set (rows s). emp_id r < Suc (next_id s)"
    by auto
  with assms(1,2) fresh show ?thesis
    unfolding s' by (simp add: table_ok_def list_all_iff)
qed

lemma table_ok_update:
  assumes "table_ok L s" and "email c = normalizeEmail L e"
    and "update_employee_row now s i (Some c) = Inr s'"
  shows "table_ok L s'"
proof -
  let ?f = "\<lambda>r. if emp_id r = i then update_row now c r else r"
  from assms(3) have guard: "select_by_id s i = [] \<or> select_duplicates s (Some (email c)) i = []"
    and s': "s' = s\<lparr>rows := map ?f (rows s)\<rparr>"
    by (auto simp: update_employee_row_def split: if_splits)
  have r: "rows s' = map ?f (rows s)" "next_id s' = next_id s"
    by (simp_all add: s')
  have "map emp_id (map ?f (rows s)) = map emp_id (rows s)"
    by (simp add: emp_id_update_row)
  with assms(1) have ids: "distinct (map emp_id (map ?f (rows s)))"
    by (simp only: table_ok_def)
  have lt: "\<forall>r\<in>set (map ?f (rows s)). emp_id r < next_id s"
    using assms(1) by (auto simp: table_ok_def list_all_iff emp_id_update_row)
  have "distinct (map (\<lambda>r. email (cols (?f r))) (rows s))"
  proof (cases "select_by_id s i = []")
    case True
    then have "\<forall>r\<in>set (rows s). emp_id r \<noteq> i"
      by (auto simp: select_by_id_def filter_empty_conv)
    then have same: "map (\<lambda>r. email (cols (?f r))) (rows s) = map (\<lambda>r. email (cols r)) (rows s)"
      by (intro map_cong) simp_all
    show ?thesis unfolding same using assms(1) by (simp add: table_ok_def)
  next
    case False
    with guard have "\<forall>r\<in>set (rows s). emp_id r \<noteq> i \<longrightarrow> email (cols r) \<noteq> email c"
      by (auto simp: select_duplicates_def filter_empty_conv)
    with assms(1) show ?thesis
      by (intro distinct_emails_after_update) (simp_all add: table_ok_def)
  qed
  then have emails: "distinct (map (\<lambda>r. email (cols r)) (map ?f (rows s)))"
    by (simp add: comp_def)
  have nm: "\<forall>r\<in>set (map ?f (rows s)). email (cols r) \<in> range (normalizeEmail L)"
    using assms(1,2) by (auto simp: table_ok_def list_all_iff cols_update_row)
  show ?thesis
    unfolding table_ok_def list_all_iff r by (intro conjI ids lt emails nm)
qed

lemma table_ok_delete: "table_ok L s \<Longrightarrow> table_ok L (delete_employee_row s i)"
  by (auto simp: table_ok_def delete_employee_row_def list_all_iff distinct_map_filter)

lemma reachable_table_ok: "reachable L s \<Longrightarrow> table_ok L s"
proof (induction rule: reachable.induct)
  case created
  show ?case by (simp add: table_ok_def empty_store_def)
next
  case (inserted s c e now i s')
  then show ?case by (blast intro: table_ok_insert)
next
  case (updated s c e now i s')
  then show ?case by (blast intro: table_ok_update)
next
  case (deleted s i)
  from deleted.IH show ?case by (rule table_ok_delete)
qed


lemma create_employee_reachable:
  assumes "reachable L s" and "\<forall>k t. reachable L t \<longrightarrow> reachable L (concurrent ev k t)"
  shows "reachable L (snd (create_employee L ev b s))"
proof -
  have s1: "reachable L (concurrent ev 1 s)" using assms by blast
  have "reachable L s'"
    if "insert_employee (clock ev) (concurrent ev 1 s) (params_of (snd (employeeValidation L b)))
          = Inr (i, s')" for i s'
  proof (cases "params_of (snd (employeeValidation L b))")
    case None
    with that show ?thesis by (simp add: insert_employee_def)
  next
    case (Some c)
    have e: "email c = normalizeEmail L (str (b ''email''))"
      using params_of_email [OF Some] by (simp add: validation_email)
    from s1 e that [unfolded Some] show ?thesis by (rule reachable.inserted)
  qed
  with assms(1) s1 show ?thesis
    by (auto simp: create_employee_def split_beta execute_def Let_def
        split: option.splits sum.splits if_splits)
qed

lemma update_employee_reachable:
  assumes "reachable L s" and "\<forall>k t. reachable L t \<longrightarrow> reachable L (concurrent ev k t)"
  shows "reachable L (snd (update_employee L ev i b s))"
proof -
  have s1: "reachable L (concurrent ev 1 s)" using assms by blast
  then have s2: "reachable L (concurrent ev 2 (concurrent ev 1 s))" using assms(2) by blast
  have "reachable L s'"
    if "update_employee_row (clock ev) (concurrent ev 2 (concurrent ev 1 s)) i
          (params_of (snd (employeeValidation L b))) = Inr s'" for s'
  proof (cases "params_of (snd (employeeValidation L b))")
    case None
    with that show ?thesis by (simp add: update_employee_row_def)
  next
    case (Some c)
    have e: "email c = normalizeEmail L (str (b ''email''))"
      using params_of_email [OF Some] by (simp add: validation_email)
    from s2 e that [unfolded Some] show ?thesis by (rule reachable.updated)
  qed
  with assms(1) s1 s2 show ?thesis
    by (auto simp: update_employee_def split_beta execute_def Let_def
        split: option.splits sum.splits if_splits)
qed

lemma delete_employee_reachable:
  assumes "reachable L s" and "\<forall>k t. reachable L t \<longrightarrow> reachable L (concurrent ev k t)"
  shows "reachable L (snd (delete_employee ev i s))"
proof -
  have s1: "reachable L (concurrent ev 1 s)" using assms by blast
  then have "reachable L (delete_employee_row (concurrent ev 1 s) i)" by (rule reachable.deleted)
  with assms(1) s1 show ?thesis
    by (auto simp: delete_employee_def execute_def Let_def split: option.splits)
qed

lemma one_employee_reachable: "reachable sample_lib one_employee"
proof -
  have "reachable sample_lib (snd (create_employee sample_lib quiet alice empty_store))"
    by (rule create_employee_reachable) (simp_all add: reachable.created quiet_def)
  then show ?thesis by (simp add: alice_created)
qed

subsection \<open>Uniqueness of emails\<close>

lemma alice_again_email:
  "normalizeEmail sample_lib (str (alice_again ''email'')) = ''alice@example.com''"
  by (simp add: alice_again_def eval_defs)

text \<open>
  C1 (as amended). In every reachable state of the table no two rows hold the same
  email. A create request that passes validation and whose normalized email is the email
  of a row is answered 409 (Conflict) by the duplicate check, the table being left as it
  was. When \<^verbatim>\<open>normalizeEmail\<close> answers lower-case addresses, no two rows hold emails
  that differ only by letter case. When \<^verbatim>\<open>normalizeEmail\<close> is insensitive to letter
  case, a create request whose email differs only by letter case from a stored email
  that \<^verbatim>\<open>normalizeEmail\<close> leaves as it is, is answered 409 in the same way.
  validator.js's \<^verbatim>\<open>normalizeEmail\<close> has both properties; it is not idempotent, and a
  stored email that it would change again is not covered, as the counterexample below
  shows.
\<close>

theorem stored_emails_unique:
  assumes "reachable L s"
  shows "distinct (map (\<lambda>r. email (cols r)) (rows s))
         \<and> (\<forall>ev b r. fst (employeeValidation L b) = [] \<and> failures ev 0 = None
               \<and> r \<in> set (rows s)
               \<and> email (cols r) = normalizeEmail L (str (b ''email''))
             \<longrightarrow> create_employee L ev b s
                   = (Response 409 (Error ''Employee with this email already exists''), s))
         \<and> ((\<forall>e. map lower (normalizeEmail L e) = normalizeEmail L e)
             \<longrightarrow> distinct (map (\<lambda>r. map lower (email (cols r))) (rows s)))
         \<and> ((\<forall>e e'. map lower e = map lower e' \<longrightarrow> normalizeEmail L e = normalizeEmail L e')
             \<longrightarrow> (\<forall>ev b r. fst (employeeValidation L b) = [] \<and> failures ev 0 = None
                     \<and> r \<in> set (rows s)
                     \<and> normalizeEmail L (email (cols r)) = email (cols r)
                     \<and> map lower (email (cols r)) = map lower (str (b ''email''))
                   \<longrightarrow> create_employee L ev b s
                         = (Response 409 (Error ''Employee with this email already exists''), s)))"
proof -
  from assms have ok: "table_ok L s" by (rule reachable_table_ok)
  then have 1: "distinct (map (\<lambda>r. email (cols r)) (rows s))"
    by (simp add: table_ok_def)
  have 2: "create_employee L ev b s
             = (Response 409 (Error ''Employee with this email already exists''), s)"
    if v: "fst (employeeValidation L b) = []" and f: "failures ev 0 = None"
      and r: "r \<in> set (rows s)"
      and e: "email (cols r) = normalizeEmail L (str (b ''email''))" for ev b r
  proof -
    from e have "Some (email (cols r)) = snd (employeeValidation L b) ''email''"
      by (simp add: validation_email)
    with r have "select_by_email s (snd (employeeValidation L b) ''email'') \<noteq> []"
      by (auto simp: select_by_email_def filter_empty_conv)
    with v f show ?thesis
      by (simp add: create_employee_def split_beta execute_def)
  qed
  have 3: "distinct (map (\<lambda>r. map lower (email (cols r))) (rows s))"
    if lc: "\<forall>e. map lower (normalizeEmail L e) = normalizeEmail L e"
  proof -
    have "map lower (email (cols r)) = email (cols r)" if "r \<in> set (rows s)" for r
    proof -
      from ok that obtain e where "email (cols r) = normalizeEmail L e"
        by (auto simp: table_ok_def list_all_iff)
      with lc show ?thesis by simp
    qed
    then have "map (\<lambda>r. map lower (email (cols r))) (rows s) = map (\<lambda>r. email (cols r)) (rows s)"
      by (intro map_cong) simp_all
    with 1 show ?thesis by (simp only:)
  qed
  have 4: "create_employee L ev b s
             = (Response 409 (Error ''Employee with this email already exists''), s)"
    if ci: "\<forall>e e'. map lower e = map lower e' \<longrightarrow> normalizeEmail L e = normalizeEmail L e'"
      and v: "fst (employeeValidation L b) = []" and f: "failures ev 0 = None"
      and r: "r \<in> set (rows s)"
      and fx: "normalizeEmail L (email (cols r)) = email (cols r)"
      and c: "map lower (email (cols r)) = map lower (str (b ''email''))" for ev b r
  proof -
    from ci c have "normalizeEmail L (email (cols r)) = normalizeEmail L (str (b ''email''))"
      by blast
    with fx have "email (cols r) = normalizeEmail L (str (b ''email''))" by simp
    with v f r show ?thesis by (rule 2)
  qed
  from 1 2 3 4 show ?thesis by blast
qed

theorem stored_emails_unique_witness:
  "reachable sample_lib one_employee
   \<and> distinct (map (\<lambda>r. email (cols r)) (rows one_employee))
   \<and> distinct (map (\<lambda>r. map lower (email (cols r))) (rows one_employee))
   \<and> fst (employeeValidation sample_lib alice_again) = []
   \<and> failures quiet 0 = None
   \<and> alice_row \<in> set (rows one_employee)
   \<and> email (cols alice_row) = normalizeEmail sample_lib (str (alice_again ''email''))
   \<and> normalizeEmail sample_lib (email (cols alice_row)) = email (cols alice_row)
   \<and> map lower (email (cols alice_row)) = map lower (str (alice_again ''email''))
   \<and> create_employee sample_lib quiet alice_again one_employee
       = (Response 409 (Error ''Employee with this email already exists''), one_employee)"
proof -
  have lc: "\<forall>e. map lower (normalizeEmail sample_lib e) = normalizeEmail sample_lib e"
    by (simp add: sample_lib_def lower_lower)
  have ci: "\<forall>e e'. map lower e = map lower e'
              \<longrightarrow> normalizeEmail sample_lib e = normalizeEmail sample_lib e'"
    by (simp add: sample_lib_def)
  have f: "failures quiet 0 = None" by (simp add: quiet_def no_faults_def)
  have r: "alice_row \<in> set (rows one_employee)" by (simp add: one_employee_def)
  have e: "email (cols alice_row) = normalizeEmail sample_lib (str (alice_again ''email''))"
    by (simp add: alice_again_email alice_row_def)
  have fx: "normalizeEmail sample_lib (email (cols alice_row)) = email (cols alice_row)"
    by (simp add: alice_row_def eval_defs)
  have c: "map lower (email (cols alice_row)) = map lower (str (alice_again ''email''))"
    by (simp add: alice_row_def alice_again_def str_def lower_def char_of_eq_iff eq_char_of_iff)
  note t = stored_emails_unique [OF one_employee_reachable]
  from t have d1: "distinct (map (\<lambda>r. email (cols r)) (rows one_employee))"
    by (rule conjunct1)
  from t lc have d2: "distinct (map (\<lambda>r. map lower (email (cols r))) (rows one_employee))"
    by blast
  from t ci alice_again_valid f r fx c
  have "create_employee sample_lib quiet alice_again one_employee
       = (Response 409 (Error ''Employee with this email already exists''), one_employee)"
    by blast
  with one_employee_reachable d1 d2 alice_again_valid f r e fx c show ?thesis by blast
qed

lemma split_step:
  "split sep (c # cs)
     = (case split sep cs of
          [] \<Rightarrow> [[c]]
        | w # ws \<Rightarrow> if c = sep then [] # w # ws else (c # w) # ws)"
  using split_nonempty [of sep cs] by (cases "split sep cs") auto

lemmas yahoo_eval =
  yahoo_normalize_def Let_def lower_def char_of_eq_iff eq_char_of_iff split_step

lemma yahoo_mary: "yahoo_normalize ''mary-ann-smith@yahoo.com'' = ''mary-ann@yahoo.com''"
  by (simp add: yahoo_eval del: split.simps(2))

lemma yahoo_mary_again: "yahoo_normalize ''Mary-Ann@yahoo.com'' = ''mary@yahoo.com''"
  by (simp add: yahoo_eval del: split.simps(2))

lemma yahoo_stored: "yahoo_normalize ''mary-ann@yahoo.com'' = ''mary@yahoo.com''"
  "yahoo_normalize ''mary@yahoo.com'' = ''mary@yahoo.com''"
  by (simp_all add: yahoo_eval del: split.simps(2))


lemma mary_valid:
  "employeeValidation yahoo_lib mary = ([], mary(''email'' \<mapsto> ''mary-ann@yahoo.com''))"
  apply (simp add: employeeValidation_def yahoo_lib_def mary_def bob_def sample_lib_def
      failing_def isLength_def trim_def whitespace_def str_def digit_def yahoo_mary)
  apply (rule ext)
  apply simp
  done

lemma mary_again_valid:
  "employeeValidation yahoo_lib mary_again = ([], mary_again(''email'' \<mapsto> ''mary@yahoo.com''))"
  apply (simp add: employeeValidation_def yahoo_lib_def mary_again_def bob_def sample_lib_def
      failing_def isLength_def trim_def whitespace_def str_def digit_def yahoo_mary_again)
  apply (rule ext)
  apply simp
  done

lemma mary_created:
  "snd (create_employee yahoo_lib quiet mary empty_store) = mary_store"
  by (simp add: create_employee_def mary_valid execute_def quiet_def no_faults_def
      select_by_email_def empty_store_def insert_employee_def)
     (simp add: params_of_def mary_def bob_def mary_store_def mary_row_def bob_row_def)

lemma mary_store_reachable: "reachable yahoo_lib mary_store"
proof -
  have "reachable yahoo_lib (snd (create_employee yahoo_lib quiet mary empty_store))"
    by (rule create_employee_reachable) (simp_all add: reachable.created quiet_def)
  then show ?thesis by (simp add: mary_created)
qed

lemma mary_again_created:
  "create_employee yahoo_lib quiet mary_again mary_store
     = (Response 201 (Created ''Employee created successfully''
          (created_employee 2 (mary_again(''email'' \<mapsto> ''mary@yahoo.com'')))),
        \<lparr>rows = [mary_row, bob_row\<lparr>cols := (cols bob_row)\<lparr>email := ''mary@yahoo.com''\<rparr>\<rparr>],
         next_id = 3\<rparr>)"
  by (simp add: create_employee_def mary_again_valid execute_def quiet_def no_faults_def
      select_by_email_def mary_store_def mary_row_def bob_row_def insert_employee_def)
     (simp add: params_of_def mary_again_def bob_def)

text \<open>
  The claim C1 as stated fails. With a \<^verbatim>\<open>normalizeEmail\<close> that treats
  \<^verbatim>\<open>yahoo.com\<close> addresses as validator.js does, creating
  \<^verbatim>\<open>mary-ann-smith@yahoo.com\<close> stores \<^verbatim>\<open>mary-ann@yahoo.com\<close>. A later create
  with \<^verbatim>\<open>Mary-Ann@yahoo.com\<close>, which differs from the stored email only by letter case,
  is normalized to \<^verbatim>\<open>mary@yahoo.com\<close>, passes the duplicate check and is answered
  201. The two stored emails are then equal after another \<^verbatim>\<open>normalizeEmail\<close>.
\<close>

theorem case_variant_create_counterexample:
  "reachable yahoo_lib mary_store
   \<and> mary_row \<in> set (rows mary_store)
   \<and> fst (employeeValidation yahoo_lib mary_again) = []
   \<and> map lower (email (cols mary_row)) = map lower (str (mary_again ''email''))
   \<and> status (fst (create_employee yahoo_lib quiet mary_again mary_store)) = 201
   \<and> map (\<lambda>r. email (cols r)) (rows (snd (create_employee yahoo_lib quiet mary_again mary_store)))
       = [''mary-ann@yahoo.com'', ''mary@yahoo.com'']
   \<and> map (\<lambda>r. normalizeEmail yahoo_lib (email (cols r)))
         (rows (snd (create_employee yahoo_lib quiet mary_again mary_store)))
       = [''mary@yahoo.com'', ''mary@yahoo.com'']"
proof -
  have a: "mary_row \<in> set (rows mary_store)" by (simp add: mary_store_def)
  have b: "fst (employeeValidation yahoo_lib mary_again) = []" by (simp add: mary_again_valid)
  have c: "map lower (email (cols mary_row)) = map lower (str (mary_again ''email''))"
    by (simp add: mary_row_def mary_again_def str_def lower_def char_of_eq_iff eq_char_of_iff)
  have d: "status (fst (create_employee yahoo_lib quiet mary_again mary_store)) = 201"
    by (simp add: mary_again_created)
  have e: "map (\<lambda>r. email (cols r)) (rows (snd (create_employee yahoo_lib quiet mary_again mary_store)))
       = [''mary-ann@yahoo.com'', ''mary@yahoo.com'']"
    by (simp add: mary_again_created mary_row_def)
  have f: "map (\<lambda>r. normalizeEmail yahoo_lib (email (cols r)))
         (rows (snd (create_employee yahoo_lib quiet mary_again mary_store)))
       = [''mary@yahoo.com'', ''mary@yahoo.com'']"
  proof -
    have n: "normalizeEmail yahoo_lib = yahoo_normalize" by (simp add: yahoo_lib_def)
    show ?thesis by (simp add: mary_again_created mary_row_def n yahoo_stored)
  qed
  from mary_store_reachable a b c d e f show ?thesis by blast
qed

subsection \<open>Order of the checks of the update route\<close>

text \<open>
  C3 (as amended). The update route validates first: a payload with violations is
  answered 400 with the list of violations, whether or not the id exists. A payload that
  passes validation and an id that no row has are answered 404, the table unchanged.
  The claim as stated (404 before validation) fails: see the counterexample below.
\<close>

theorem update_validates_before_lookup:
  "(fst (employeeValidation L b) \<noteq> [] \<longrightarrow>
      update_employee L ev i b s
        = (Response 400 (ErrorDetails ''Validation failed'' (fst (employeeValidation L b))), s))
   \<and> (fst (employeeValidation L b) = [] \<and> failures ev 0 = None \<and> select_by_id s i = [] \<longrightarrow>
        update_employee L ev i b s = (Response 404 (Error ''Employee not found''), s))"
  by (cases "employeeValidation L b") (simp add: update_employee_def execute_def)

theorem update_validates_before_lookup_witness:
  "fst (employeeValidation sample_lib Map.empty) \<noteq> []
   \<and> update_employee sample_lib quiet 7 Map.empty one_employee
       = (Response 400 (ErrorDetails ''Validation failed''
            (fst (employeeValidation sample_lib Map.empty))), one_employee)
   \<and> fst (employeeValidation sample_lib bob) = []
   \<and> failures quiet 0 = None
   \<and> select_by_id one_employee 7 = []
   \<and> update_employee sample_lib quiet 7 bob one_employee
       = (Response 404 (Error ''Employee not found''), one_employee)"
proof -
  have 1: "fst (employeeValidation sample_lib Map.empty) \<noteq> []"
    by (simp add: eval_defs)
  have 2: "fst (employeeValidation sample_lib bob) = []" by (simp add: bob_valid)
  have 3: "failures quiet 0 = None" by (simp add: quiet_def no_faults_def)
  have 4: "select_by_id one_employee 7 = []"
    by (simp add: select_by_id_def one_employee_def alice_row_def)
  note t1 = update_validates_before_lookup [of sample_lib Map.empty quiet 7 one_employee]
  note t2 = update_validates_before_lookup [of sample_lib bob quiet 7 one_employee]
  from t1 1 have a: "update_employee sample_lib quiet 7 Map.empty one_employee
       = (Response 400 (ErrorDetails ''Validation failed''
            (fst (employeeValidation sample_lib Map.empty))), one_employee)"
    by blast
  from t2 2 3 4 have b: "update_employee sample_lib quiet 7 bob one_employee
       = (Response 404 (Error ''Employee not found''), one_employee)"
    by blast
  from 1 2 3 4 a b show ?thesis by blast
qed

text \<open>
  The claim C3 as stated fails: an update with an id that no row has and an empty
  payload is answered 400 (validation), not 404.
\<close>

theorem update_not_found_first_counterexample:
  "select_by_id empty_store 7 = []
   \<and> status (fst (update_employee sample_lib quiet 7 Map.empty empty_store)) = 400"
  by (simp add: select_by_id_def empty_store_def update_employee_def employeeValidation_def
      failing_def isLength_def trim_def str_def Let_def)

subsection \<open>What create returns\<close>






subsection \<open>Duplicate keys reported by the storage layer\<close>

text \<open>
  C5. When the duplicate check of the create route, or of the update route, found
  nothing and the write itself is rejected with \<^verbatim>\<open>ER_DUP_ENTRY\<close> (another request took
  the email in between, or the storage layer reports the code), the response is 409
  (Conflict), not 500.
\<close>

theorem duplicate_key_is_conflict:
  "(fst (employeeValidation L b) = [] \<and> failures ev 0 = None
      \<and> select_by_email s (snd (employeeValidation L b) ''email'') = []
      \<and> execute (failures ev) 1
            (insert_employee (clock ev) (concurrent ev 1 s)
               (params_of (snd (employeeValidation L b)))) = Inl ER_DUP_ENTRY
    \<longrightarrow> create_employee L ev b s
          = (Response 409 (Error ''Employee with this email already exists''),
             concurrent ev 1 s))
   \<and> (fst (employeeValidation L b) = [] \<and> failures ev 0 = None \<and> failures ev 1 = None
      \<and> select_by_id s i \<noteq> []
      \<and> select_duplicates (concurrent ev 1 s) (snd (employeeValidation L b) ''email'') i = []
      \<and> execute (failures ev) 2
            (update_employee_row (clock ev) (concurrent ev 2 (concurrent ev 1 s)) i
               (params_of (snd (employeeValidation L b)))) = Inl ER_DUP_ENTRY
    \<longrightarrow> update_employee L ev i b s
          = (Response 409 (Error ''Another employee with this email already exists''),
             concurrent ev 2 (concurrent ev 1 s)))"
  by (simp add: create_employee_def update_employee_def split_beta execute_def
      create_failed_def update_failed_def)

theorem duplicate_key_is_conflict_witness:
  "fst (employeeValidation sample_lib bob) = [] \<and> failures (racing 1) 0 = None
   \<and> select_by_email one_employee (snd (employeeValidation sample_lib bob) ''email'') = []
   \<and> execute (failures (racing 1)) 1
        (insert_employee (clock (racing 1)) (concurrent (racing 1) 1 one_employee)
           (params_of (snd (employeeValidation sample_lib bob)))) = Inl ER_DUP_ENTRY
   \<and> create_employee sample_lib (racing 1) bob one_employee
       = (Response 409 (Error ''Employee with this email already exists''),
          concurrent (racing 1) 1 one_employee)
   \<and> fst (employeeValidation sample_lib to_bob) = []
   \<and> failures (racing 2) 0 = None \<and> failures (racing 2) 1 = None
   \<and> select_by_id one_employee 1 \<noteq> []
   \<and> select_duplicates (concurrent (racing 2) 1 one_employee)
        (snd (employeeValidation sample_lib to_bob) ''email'') 1 = []
   \<and> execute (failures (racing 2)) 2
        (update_employee_row (clock (racing 2))
           (concurrent (racing 2) 2 (concurrent (racing 2) 1 one_employee)) 1
           (params_of (snd (employeeValidation sample_lib to_bob)))) = Inl ER_DUP_ENTRY
   \<and> update_employee sample_lib (racing 2) 1 to_bob one_employee
       = (Response 409 (Error ''Another employee with this email already exists''),
          concurrent (racing 2) 2 (concurrent (racing 2) 1 one_employee))"
proof -
  have c1: "fst (employeeValidation sample_lib bob) = []" by (simp add: bob_valid)
  have c2: "failures (racing 1) 0 = None" by (simp add: racing_def no_faults_def)
  have c3: "select_by_email one_employee (snd (employeeValidation sample_lib bob) ''email'') = []"
    by (simp add: validation_email bob_email select_by_email_def one_employee_def alice_row_def)
  have c4: "execute (failures (racing 1)) 1
        (insert_employee (clock (racing 1)) (concurrent (racing 1) 1 one_employee)
           (params_of (snd (employeeValidation sample_lib bob)))) = Inl ER_DUP_ENTRY"
    unfolding racing_1
    by (simp add: bob_valid bob_params racing_def no_faults_def execute_def insert_employee_def
        two_employees_def alice_row_def bob_row_def)
  have u1: "fst (employeeValidation sample_lib to_bob) = []" by (rule to_bob_valid)
  have u2: "failures (racing 2) 0 = None" "failures (racing 2) 1 = None"
    by (simp_all add: racing_def no_faults_def)
  have u3: "select_by_id one_employee 1 \<noteq> []"
    by (simp add: select_by_id_def one_employee_def alice_row_def)
  have u4: "select_duplicates (concurrent (racing 2) 1 one_employee)
        (snd (employeeValidation sample_lib to_bob) ''email'') 1 = []"
    unfolding racing_2
    by (simp add: validation_email to_bob_email select_duplicates_def
        one_employee_def alice_row_def)
  have u5: "execute (failures (racing 2)) 2
        (update_employee_row (clock (racing 2))
           (concurrent (racing 2) 2 (concurrent (racing 2) 1 one_employee)) 1
           (params_of (snd (employeeValidation sample_lib to_bob)))) = Inl ER_DUP_ENTRY"
    unfolding racing_2
    by (simp add: to_bob_params racing_def no_faults_def execute_def update_employee_row_def
        select_by_id_def select_duplicates_def two_employees_def alice_row_def bob_row_def)
  note t = duplicate_key_is_conflict [of sample_lib bob "racing 1" one_employee]
  note t' = duplicate_key_is_conflict [of sample_lib to_bob "racing 2" one_employee 1]
  from t c1 c2 c3 c4
  have a: "create_employee sample_lib (racing 1) bob one_employee
       = (Response 409 (Error ''Employee with this email already exists''),
          concurrent (racing 1) 1 one_employee)"
    by blast
  from t' u1 u2 u3 u4 u5
  have b: "update_employee sample_lib (racing 2) 1 to_bob one_employee
       = (Response 409 (Error ''Another employee with this email already exists''),
          concurrent (racing 2) 2 (concurrent (racing 2) 1 one_employee))"
    by blast
  from c1 c2 c3 c4 a u1 u2 u3 u4 u5 b show ?thesis by blast
qed

subsection \<open>Updating to an email that is taken\<close>

text \<open>
  C8. An update of an existing employee (id \<open>i\<close>) whose payload passes validation and
  whose normalized email is the email of a row with another id is answered 409 (Conflict).
  The route issues no write: the table is left as concurrent requests made it, that is,
  unchanged when there are none.
\<close>

theorem update_to_taken_email_conflicts:
  assumes "fst (employeeValidation L b) = []"
    and "failures ev 0 = None" and "failures ev 1 = None"
    and "a \<in> set (rows s)" and "emp_id a = i"
    and "r \<in> set (rows (concurrent ev 1 s))" and "emp_id r \<noteq> i"
    and "email (cols r) = normalizeEmail L (str (b ''email''))"
  shows "update_employee L ev i b s
           = (Response 409 (Error ''Another employee with this email already exists''),
              concurrent ev 1 s)"
proof -
  from assms(4,5) have "select_by_id s i \<noteq> []"
    by (auto simp: select_by_id_def filter_empty_conv)
  moreover from assms(6,7,8)
  have "select_duplicates (concurrent ev 1 s) (snd (employeeValidation L b) ''email'') i \<noteq> []"
    by (auto simp: select_duplicates_def filter_empty_conv validation_email)
  ultimately show ?thesis
    using assms(1,2,3)
    by (simp add: update_employee_def split_beta execute_def)
qed

theorem update_to_taken_email_conflicts_witness:
  "fst (employeeValidation sample_lib to_bob) = []
   \<and> failures quiet 0 = None \<and> failures quiet 1 = None
   \<and> alice_row \<in> set (rows two_employees) \<and> emp_id alice_row = 1
   \<and> concurrent quiet 1 two_employees = two_employees
   \<and> bob_row \<in> set (rows two_employees) \<and> emp_id bob_row \<noteq> 1
   \<and> email (cols bob_row) = normalizeEmail sample_lib (str (to_bob ''email''))
   \<and> update_employee sample_lib quiet 1 to_bob two_employees
       = (Response 409 (Error ''Another employee with this email already exists''),
          two_employees)"
proof -
  have f: "failures quiet 0 = None" "failures quiet 1 = None"
    by (simp_all add: quiet_def no_faults_def)
  have q: "concurrent quiet 1 two_employees = two_employees" by (simp add: quiet_def)
  have a: "alice_row \<in> set (rows two_employees)" "emp_id alice_row = 1"
    by (simp_all add: two_employees_def alice_row_def)
  have b: "bob_row \<in> set (rows two_employees)" "emp_id bob_row \<noteq> 1"
    by (simp_all add: two_employees_def bob_row_def)
  have e: "email (cols bob_row) = normalizeEmail sample_lib (str (to_bob ''email''))"
    by (simp add: to_bob_email bob_row_def)
  from b(1) have b': "bob_row \<in> set (rows (concurrent quiet 1 two_employees))"
    by (simp only: q)
  from update_to_taken_email_conflicts [OF to_bob_valid f a b' b(2) e]
  have "update_employee sample_lib quiet 1 to_bob two_employees
       = (Response 409 (Error ''Another employee with this email already exists''),
          two_employees)"
    by (simp only: q)
  with to_bob_valid f q a b e show ?thesis by blast
qed

subsection \<open>The phone rules\<close>

text \<open>
  C9 (as amended). On the server, a payload without a phone never gets a phone
  violation, and a payload with a phone gets one exactly when \<^verbatim>\<open>isMobilePhone\<close> of
  validator.js rejects the value: the set of characters does not decide. The lenient
  pattern is the form's: its phone rule accepts every value made only of digits, spaces,
  dashes, parentheses and plus signs, and rejects a value only when it contains a
  character outside that set.
\<close>

theorem phone_checks:
  "(b ''phone'' = None \<longrightarrow>
      \<lparr>path = ''phone'', msg = ''Valid phone number required''\<rparr> \<notin> set (fst (employeeValidation L b)))
   \<and> (b ''phone'' = Some p \<longrightarrow>
        (\<lparr>path = ''phone'', msg = ''Valid phone number required''\<rparr> \<in> set (fst (employeeValidation L b))
         \<longleftrightarrow> \<not> isMobilePhone L p))
   \<and> (list_all (\<lambda>c. digit c \<or> c = CHR '' '' \<or> c = CHR ''-'' \<or> c = CHR ''(''
                  \<or> c = CHR '')'' \<or> c = CHR ''+'') q
      \<longrightarrow> validateForm_phone (Some q) = None)
   \<and> (validateForm_phone (Some q) \<noteq> None
      \<longrightarrow> (\<exists>c\<in>set q. \<not> (digit c \<or> c = CHR '' '' \<or> c = CHR ''-'' \<or> c = CHR ''(''
                            \<or> c = CHR '')'' \<or> c = CHR ''+'')))"
proof -
  have sp: "whitespace (CHR '' '')" by (simp add: whitespace_def)
  have 1: "b ''phone'' = None \<longrightarrow>
      \<lparr>path = ''phone'', msg = ''Valid phone number required''\<rparr> \<notin> set (fst (employeeValidation L b))"
    by (simp add: employeeValidation_def failing_def Let_def split: option.splits)
  have 2: "b ''phone'' = Some p \<longrightarrow>
        (\<lparr>path = ''phone'', msg = ''Valid phone number required''\<rparr> \<in> set (fst (employeeValidation L b))
         \<longleftrightarrow> \<not> isMobilePhone L p)"
    by (simp add: employeeValidation_def failing_def Let_def split: option.splits)
  have 3: "(list_all (\<lambda>c. digit c \<or> c = CHR '' '' \<or> c = CHR ''-'' \<or> c = CHR ''(''
                  \<or> c = CHR '')'' \<or> c = CHR ''+'') q
      \<longrightarrow> validateForm_phone (Some q) = None)
   \<and> (validateForm_phone (Some q) \<noteq> None
      \<longrightarrow> (\<exists>c\<in>set q. \<not> (digit c \<or> c = CHR '' '' \<or> c = CHR ''-'' \<or> c = CHR ''(''
                            \<or> c = CHR '')'' \<or> c = CHR ''+'')))"
    using sp
    by (auto simp: validateForm_phone_def phone_pattern_def phone_class_def falsy_def str_def
        list_all_iff)
  from 1 2 3 show ?thesis by blast
qed

theorem phone_checks_witness:
  "bob ''phone'' = Some ''5550100456'' \<and> isMobilePhone sample_lib ''5550100456''
   \<and> \<lparr>path = ''phone'', msg = ''Valid phone number required''\<rparr>
         \<notin> set (fst (employeeValidation sample_lib bob))
   \<and> bob_dash ''phone'' = Some ''-'' \<and> \<not> isMobilePhone sample_lib ''-''
   \<and> \<lparr>path = ''phone'', msg = ''Valid phone number required''\<rparr>
         \<in> set (fst (employeeValidation sample_lib bob_dash))
   \<and> Map.empty ''phone'' = None
   \<and> \<lparr>path = ''phone'', msg = ''Valid phone number required''\<rparr>
         \<notin> set (fst (employeeValidation sample_lib Map.empty))
   \<and> list_all (\<lambda>c. digit c \<or> c = CHR '' '' \<or> c = CHR ''-'' \<or> c = CHR ''(''
                  \<or> c = CHR '')'' \<or> c = CHR ''+'') ''+1 (555) 010-9999''
   \<and> validateForm_phone (Some ''+1 (555) 010-9999'') = None
   \<and> validateForm_phone (Some ''555-CALL'') \<noteq> None
   \<and> (\<exists>c\<in>set ''555-CALL''. \<not> (digit c \<or> c = CHR '' '' \<or> c = CHR ''-'' \<or> c = CHR ''(''
                            \<or> c = CHR '')'' \<or> c = CHR ''+''))"
proof -
  have p1: "bob ''phone'' = Some ''5550100456''" by (simp add: bob_def)
  have m1: "isMobilePhone sample_lib ''5550100456''" by (simp add: sample_lib_def digit_def)
  have p2: "bob_dash ''phone'' = Some ''-''" by (simp add: bob_dash_def)
  have m2: "\<not> isMobilePhone sample_lib ''-''" by (simp add: sample_lib_def)
  have p3: "Map.empty ''phone'' = None" by simp
  have a: "list_all (\<lambda>c. digit c \<or> c = CHR '' '' \<or> c = CHR ''-'' \<or> c = CHR ''(''
                  \<or> c = CHR '')'' \<or> c = CHR ''+'') ''+1 (555) 010-9999''"
    by (simp add: digit_def)
  have b: "validateForm_phone (Some ''555-CALL'') \<noteq> None"
    by (simp add: validateForm_phone_def phone_pattern_def phone_class_def falsy_def str_def
        digit_def whitespace_def)
  note t1 = phone_checks [of bob sample_lib "''5550100456''" "''+1 (555) 010-9999''"]
  note t2 = phone_checks [of bob_dash sample_lib "''-''" "''555-CALL''"]
  note t3 = phone_checks [of Map.empty sample_lib "''-''" "''555-CALL''"]
  from t1 p1 m1 have e1: "\<lparr>path = ''phone'', msg = ''Valid phone number required''\<rparr>
         \<notin> set (fst (employeeValidation sample_lib bob))"
    by blast
  from t2 p2 m2 have e2: "\<lparr>path = ''phone'', msg = ''Valid phone number required''\<rparr>
         \<in> set (fst (employeeValidation sample_lib bob_dash))"
    by blast
  from t3 p3 have e3: "\<lparr>path = ''phone'', msg = ''Valid phone number required''\<rparr>
         \<notin> set (fst (employeeValidation sample_lib Map.empty))"
    by blast
  from t1 a have c: "validateForm_phone (Some ''+1 (555) 010-9999'') = None" by blast
  from t2 b have d: "\<exists>c\<in>set ''555-CALL''. \<not> (digit c \<or> c = CHR '' '' \<or> c = CHR ''-'' \<or> c = CHR ''(''
                            \<or> c = CHR '')'' \<or> c = CHR ''+'')"
    by blast
  from p1 m1 e1 p2 m2 e2 p3 e3 a c b d show ?thesis by blast
qed

lemma bob_dash_errors:
  "fst (employeeValidation sample_lib bob_dash)
     = [\<lparr>path = ''phone'', msg = ''Valid phone number required''\<rparr>]"
  by (simp add: bob_dash_def bob_def eval_defs)

text \<open>
  The claim C9 as stated fails on the server: a single dash is made of the lenient
  characters only, yet a create or an update with that phone is answered 400 with a phone
  violation. Here \<^verbatim>\<open>isMobilePhone\<close> is the sample instance, which rejects the dash;
  validator.js's rejects it too, since each of its locale patterns asks for digits.
\<close>

theorem server_phone_check_counterexample:
  "list_all (\<lambda>c. digit c \<or> c = CHR '' '' \<or> c = CHR ''-'' \<or> c = CHR ''(''
                  \<or> c = CHR '')'' \<or> c = CHR ''+'') ''-''
   \<and> bob_dash ''phone'' = Some ''-''
   \<and> fst (employeeValidation sample_lib bob_dash)
       = [\<lparr>path = ''phone'', msg = ''Valid phone number required''\<rparr>]
   \<and> status (fst (create_employee sample_lib quiet bob_dash empty_store)) = 400
   \<and> status (fst (update_employee sample_lib quiet 1 bob_dash one_employee)) = 400"
proof -
  have a: "list_all (\<lambda>c. digit c \<or> c = CHR '' '' \<or> c = CHR ''-'' \<or> c = CHR ''(''
                  \<or> c = CHR '')'' \<or> c = CHR ''+'') ''-''"
    by simp
  have b: "bob_dash ''phone'' = Some ''-''" by (simp add: bob_dash_def)
  have c: "status (fst (create_employee sample_lib quiet bob_dash empty_store)) = 400"
    by (simp add: create_employee_def split_beta bob_dash_errors)
  have d: "status (fst (update_employee sample_lib quiet 1 bob_dash one_employee)) = 400"
    by (simp add: update_employee_def split_beta bob_dash_errors)
  from a b bob_dash_errors c d show ?thesis by blast
qed

end
